theory Spec2Isabelle
  imports Complex_Main
begin

section \<open>Data model\<close>

text \<open>
  A 2-D numpy array is a list of rows. An array with no rows is the empty list, so
  its column count is 0. Floating-point samples and weights are real numbers:
  arithmetic is exact, rounding and NaN are outside the model. Masks are arrays of
  booleans. An \<open>assert\<close> that fails is \<open>AssertionError\<close>, an index out of
  range is \<open>IndexError\<close>.
\<close>

datatype error = AssertionError | IndexError

type_synonym 'a array2 = "'a list list"

definition shape :: "'a array2 \<Rightarrow> nat \<times> nat" where
  "shape a = (length a, case a of [] \<Rightarrow> 0 | r # _ \<Rightarrow> length r)"


text \<open>\<open>np.sum\<close> of a 2-D array: the sum of all its elements.\<close>

definition np_sum :: "real array2 \<Rightarrow> real" where
  "np_sum a = sum_list (concat a)"

section \<open>gaussian_kernel\<close>



section \<open>tile_and_reflect\<close>

definition np_tile :: "'a array2 \<Rightarrow> nat \<Rightarrow> nat \<Rightarrow> 'a array2" where
  "np_tile a m n = concat (replicate m (map (\<lambda>r. concat (replicate n r)) a))"

definition fliplr :: "'a array2 \<Rightarrow> 'a array2" where
  "fliplr a = map rev a"

definition flipud :: "'a array2 \<Rightarrow> 'a array2" where
  "flipud a = rev a"

text \<open>The slice \<open>t[r0:r1, c0:c1]\<close> with non-negative bounds; it clips as Python does.\<close>

definition slice2 :: "'a array2 \<Rightarrow> nat \<Rightarrow> nat \<Rightarrow> nat \<Rightarrow> nat \<Rightarrow> 'a array2" where
  "slice2 t r0 r1 c0 c1 = map (\<lambda>row. take (c1 - c0) (drop c0 row)) (take (r1 - r0) (drop r0 t))"

text \<open>
  The assignment \<open>t[r0:r1, c0:c1] = blk\<close>, for a block that has the shape of the
  slice (every assignment of the source has: the block is the flipped slice). The
  right-hand side is a value: numpy copies it when it overlaps the target.
\<close>

definition assign2 :: "'a array2 \<Rightarrow> nat \<Rightarrow> nat \<Rightarrow> nat \<Rightarrow> nat \<Rightarrow> 'a array2 \<Rightarrow> 'a array2" where
  "assign2 t r0 r1 c0 c1 blk =
     take r0 t
     @ map2 (\<lambda>row b. take c0 row @ b @ drop c1 row) (take (r1 - r0) (drop r0 t)) blk
     @ drop r1 t"

text \<open>The start of the slice \<open>[-n:]\<close> on an axis of length \<open>len\<close>: \<open>-0\<close> is \<open>0\<close>.\<close>

definition neg_start :: "nat \<Rightarrow> nat \<Rightarrow> nat" where
  "neg_start len n = (if n = 0 then 0 else len - n)"

text \<open>One round of the first loop: the left and the right tile of row band \<open>i\<close>.\<close>

definition reflect_sides :: "nat \<Rightarrow> nat \<Rightarrow> nat \<Rightarrow> 'a array2 \<Rightarrow> 'a array2" where
  "reflect_sides rows cols i t =
     (let t1 = assign2 t (i * rows) ((i + 1) * rows) 0 cols
                 (fliplr (slice2 t (i * rows) ((i + 1) * rows) 0 cols));
          s = neg_start (3 * cols) cols
      in assign2 t1 (i * rows) ((i + 1) * rows) s (3 * cols)
           (fliplr (slice2 t1 (i * rows) ((i + 1) * rows) s (3 * cols))))"

text \<open>One round of the second loop: the top and the bottom tile of column band \<open>i\<close>.\<close>

definition reflect_ends :: "nat \<Rightarrow> nat \<Rightarrow> nat \<Rightarrow> 'a array2 \<Rightarrow> 'a array2" where
  "reflect_ends rows cols i t =
     (let t1 = assign2 t 0 rows (i * cols) ((i + 1) * cols)
                 (flipud (slice2 t 0 rows (i * cols) ((i + 1) * cols)));
          s = neg_start (3 * rows) rows
      in assign2 t1 s (3 * rows) (i * cols) ((i + 1) * cols)
           (flipud (slice2 t1 s (3 * rows) (i * cols) ((i + 1) * cols))))"

text \<open>The array after both loops, before the assertions.\<close>

definition tiled_array :: "'a array2 \<Rightarrow> 'a array2" where
  "tiled_array input =
     (let rows = fst (shape input); cols = snd (shape input)
      in fold (reflect_ends rows cols) [0 ..< 3]
           (fold (reflect_sides rows cols) [0 ..< 3] (np_tile input 3 3)))"

text \<open>
  The five assertions follow, in the order of the source. \<open>input[0, :]\<close> raises
  IndexError on an array without rows, \<open>input[:, -1]\<close> on one without columns.
\<close>

definition tile_and_reflect :: "'a array2 \<Rightarrow> error + 'a array2" where
  "tile_and_reflect input =
     (let tiled_input = tiled_array input;
          rows = fst (shape input); cols = snd (shape input)
      in if input \<noteq> slice2 tiled_input rows (2 * rows) cols (2 * cols) then Inl AssertionError
         else if rows = 0 then Inl IndexError
         else if input ! 0 \<noteq> take cols (drop cols (tiled_input ! (rows - 1)))
           then Inl AssertionError
         else if cols = 0 then Inl IndexError
         else if map last input \<noteq> map (\<lambda>r. r ! (2 * cols)) (take rows (drop rows tiled_input))
           then Inl AssertionError
         else if last input \<noteq> take cols (drop cols (tiled_input ! (2 * rows)))
           then Inl AssertionError
         else if map hd input \<noteq> map (\<lambda>r. r ! (cols - 1)) (take rows (drop rows tiled_input))
           then Inl AssertionError
         else Inr tiled_input)"

section \<open>convolve\<close>

fun fold_err :: "('a \<Rightarrow> 's \<Rightarrow> error + 's) \<Rightarrow> 'a list \<Rightarrow> 's \<Rightarrow> error + 's" where
  "fold_err f [] s = Inr s"
| "fold_err f (x # xs) s = (case f x s of Inl e \<Rightarrow> Inl e | Inr s' \<Rightarrow> fold_err f xs s')"

text \<open>
  The reference (slow) mode: the nested loops over the kernel, adding into
  \<open>average\<close>. \<open>m = i + k - hw_row\<close> and \<open>n = j + l - hw_col\<close> are never negative,
  since \<open>hw_row \<le> rows \<le> i\<close> and \<open>hw_col \<le> cols \<le> j\<close>.
\<close>

definition slow_average :: "real array2 \<Rightarrow> real array2 \<Rightarrow> nat \<Rightarrow> nat \<Rightarrow> nat \<Rightarrow> nat \<Rightarrow> real" where
  "slow_average tiled_input weights i j hw_row hw_col =
     fold (\<lambda>k average.
        fold (\<lambda>l average.
           average + tiled_input ! (i + k - hw_row) ! (j + l - hw_col) * weights ! k ! l)
          [0 ..< snd (shape weights)] average)
       [0 ..< fst (shape weights)] 0"

text \<open>Elementwise product of two arrays of one shape.\<close>

definition multiply :: "real array2 \<Rightarrow> real array2 \<Rightarrow> real array2" where
  "multiply a b = map2 (map2 (*)) a b"

text \<open>\<open>weights[overlapping_mask]\<close>: the weights at the masked positions.\<close>

definition masked_select :: "real array2 \<Rightarrow> bool array2 \<Rightarrow> real list" where
  "masked_select a m = map fst (filter snd (zip (concat a) (concat m)))"

text \<open>\<open>clobber_total / remaining_num\<close>, the share each remaining weight receives.\<close>

definition correction_of :: "real array2 \<Rightarrow> bool array2 \<Rightarrow> real" where
  "correction_of weights overlapping_mask =
     sum_list (masked_select weights overlapping_mask)
       / real (length (filter Not (concat overlapping_mask)))"

text \<open>
  The working kernel \<open>tmp_weights\<close>: the masked weights are set to 0 and the
  correction is added to the weights that are not 0.
\<close>

definition working_kernel :: "real array2 \<Rightarrow> bool array2 \<Rightarrow> real array2" where
  "working_kernel weights overlapping_mask =
     (let correction = correction_of weights overlapping_mask;
          zeroed = map2 (map2 (\<lambda>w b. if b then 0 else w)) weights overlapping_mask
      in map (map (\<lambda>w. if w \<noteq> 0 then w + correction else w)) zeroed)"

text \<open>The masked branch with its three assertions, in the order of the source.\<close>

definition redistribute :: "real array2 \<Rightarrow> bool array2 \<Rightarrow> error + real array2" where
  "redistribute weights overlapping_mask =
     (let remaining_num = length (filter Not (concat overlapping_mask))
      in if \<not> remaining_num > 0 then Inl AssertionError
         else if correction_of weights overlapping_mask = 0
                 \<and> list_ex (list_ex id) overlapping_mask then Inl AssertionError
         else let tmp_weights = working_kernel weights overlapping_mask
         in if \<not> \<bar>np_sum tmp_weights - 1\<bar> < 1 / 10 ^ 15 then Inl AssertionError
         else Inr tmp_weights)"

text \<open>The windowed mode for the pixel at \<open>(i, j)\<close> of the tiled array.\<close>

definition windowed_average ::
  "real array2 \<Rightarrow> bool array2 option \<Rightarrow> real array2 \<Rightarrow> nat \<Rightarrow> nat \<Rightarrow> nat \<Rightarrow> nat \<Rightarrow> error + real" where
  "windowed_average tiled_input tiled_mask weights i j hw_row hw_col =
     (let overlapping = slice2 tiled_input (i - hw_row) (i + hw_row + 1) (j - hw_col) (j + hw_col + 1)
      in if shape overlapping \<noteq> shape weights then Inl AssertionError
         else case tiled_mask of
           None \<Rightarrow> Inr (np_sum (multiply weights overlapping))
         | Some tm \<Rightarrow>
             (let overlapping_mask = slice2 tm (i - hw_row) (i + hw_row + 1) (j - hw_col) (j + hw_col + 1)
              in if shape overlapping_mask \<noteq> shape weights then Inl AssertionError
                 else case redistribute weights overlapping_mask of
                   Inl e \<Rightarrow> Inl e
                 | Inr tmp_weights \<Rightarrow> Inr (np_sum (multiply tmp_weights overlapping))))"

text \<open>
  The body of the inner loop for the output cell \<open>(io, jo)\<close>. The source is
  Python 2: \<open>weights.shape[0] / 2\<close> is integer division.
\<close>

definition convolve_cell ::
  "real array2 \<Rightarrow> bool array2 option \<Rightarrow> real array2 \<Rightarrow> bool \<Rightarrow> nat \<Rightarrow> nat \<Rightarrow> nat \<Rightarrow> nat
     \<Rightarrow> real array2 \<Rightarrow> error + real array2" where
  "convolve_cell tiled_input tiled_mask weights slow rows cols io jo output =
     (let i = rows + io; j = cols + jo;
          hw_row = fst (shape weights) div 2; hw_col = snd (shape weights) div 2
      in if (case tiled_mask of None \<Rightarrow> False | Some tm \<Rightarrow> tm ! i ! j) then Inr output
         else case (if slow then Inr (slow_average tiled_input weights i j hw_row hw_col)
                    else windowed_average tiled_input tiled_mask weights i j hw_row hw_col) of
           Inl e \<Rightarrow> Inl e
         | Inr average \<Rightarrow> Inr (output[io := (output ! io)[jo := average]]))"

definition convolve_loops ::
  "real array2 \<Rightarrow> bool array2 option \<Rightarrow> real array2 \<Rightarrow> bool \<Rightarrow> nat \<Rightarrow> nat
     \<Rightarrow> real array2 \<Rightarrow> error + real array2" where
  "convolve_loops tiled_input tiled_mask weights slow rows cols output =
     fold_err (\<lambda>io. fold_err (convolve_cell tiled_input tiled_mask weights slow rows cols io)
                       [0 ..< cols])
       [0 ..< rows] output"

definition convolve ::
  "real array2 \<Rightarrow> real array2 \<Rightarrow> bool array2 option \<Rightarrow> bool \<Rightarrow> error + real array2" where
  "convolve input weights mask_opt slow =
     (if \<not> fst (shape weights) < fst (shape input) + 1 then Inl AssertionError
      else if \<not> snd (shape weights) < snd (shape input) + 1 then Inl AssertionError
      else case (case mask_opt of
                   None \<Rightarrow> Inr None
                 | Some m \<Rightarrow>
                     if slow then Inl AssertionError
                     else if shape input \<noteq> shape m then Inl AssertionError
                     else (case tile_and_reflect m of
                             Inl e \<Rightarrow> Inl e | Inr tm \<Rightarrow> Inr (Some tm))) of
        Inl e \<Rightarrow> Inl e
      | Inr tiled_mask \<Rightarrow>
          (case tile_and_reflect input of
             Inl e \<Rightarrow> Inl e
           | Inr tiled_input \<Rightarrow>
               convolve_loops tiled_input tiled_mask weights slow
                 (fst (shape input)) (snd (shape input)) input))"

section \<open>create_contour: the smoothing step\<close>

text \<open>
  Modelled from the spec: the selector constants \<open>NONE_SMOOTHING\<close>,
  \<open>NUMPY_SMOOTHING\<close> and \<open>SCIPY_SMOOTHING\<close> of \<open>safe.definitions.constants\<close>,
  three distinct values of the smoothing-method enumeration.
\<close>

datatype smoothing = NONE_SMOOTHING | NUMPY_SMOOTHING | SCIPY_SMOOTHING


section \<open>Auxiliary definitions\<close>


text \<open>A list of \<open>n\<close> rows of \<open>m\<close> cells each.\<close>

definition is_grid :: "'a array2 \<Rightarrow> nat \<Rightarrow> nat \<Rightarrow> bool" where
  "is_grid t n m = (length t = n \<and> list_all (\<lambda>row. length row = m) t)"

text \<open>An \<open>n \<times> m\<close> grid whose cell \<open>(r, c)\<close> is \<open>f r c\<close>.\<close>

definition cells :: "'a array2 \<Rightarrow> nat \<Rightarrow> nat \<Rightarrow> (nat \<Rightarrow> nat \<Rightarrow> 'a) \<Rightarrow> bool" where
  "cells t n m f = (is_grid t n m \<and> (\<forall>r < n. \<forall>c < m. t ! r ! c = f r c))"


text \<open>The index of the tiled axis that one flip of both outer tiles moves to \<open>k\<close>.\<close>

definition side :: "nat \<Rightarrow> nat \<Rightarrow> nat" where
  "side n k = (if k < n then n - 1 - k else if 2 * n \<le> k then 5 * n - 1 - k else k)"



section \<open>The kernel builder\<close>













section \<open>Preconditions of convolve\<close>

text \<open>
  Claim C8: \<open>convolve\<close> fails with an invalid-input error (a failed assertion)
  and returns no output grid whenever a kernel dimension is not less than the
  corresponding grid dimension + 1, a mask is supplied together with the reference
  (slow) mode, or a supplied mask has not the shape of the grid. The assertions
  come before any tiling or convolution.
\<close>

theorem convolve_invalid_input:
  "\<not> fst (shape weights) < fst (shape input) + 1
   \<or> \<not> snd (shape weights) < snd (shape input) + 1
   \<or> (mask_opt \<noteq> None \<and> slow)
   \<or> (\<exists>m. mask_opt = Some m \<and> shape m \<noteq> shape input)
   \<Longrightarrow> convolve input weights mask_opt slow = Inl AssertionError"
  by (auto simp: convolve_def split: option.splits)

theorem convolve_invalid_input_witness:
  "convolve [[1, 2], [3, 4]] [[1, 0, 0], [0, 0, 0], [0, 0, 0]] None False = Inl AssertionError
   \<and> convolve [[1, 2], [3, 4]] [[1]] (Some [[False, False], [False, False]]) True = Inl AssertionError
   \<and> convolve [[1, 2], [3, 4]] [[1]] (Some [[False, False]]) False = Inl AssertionError"
  using convolve_invalid_input [of "[[1, 0, 0], [0, 0, 0], [0, 0, 0]]" "[[1, 2], [3, 4]]" None False]
    convolve_invalid_input [of "[[1]]" "[[1, 2], [3, 4]]" "Some [[False, False], [False, False]]" True]
    convolve_invalid_input [of "[[1]]" "[[1, 2], [3, 4]]" "Some [[False, False]]" False]
  by (simp add: shape_def)

section \<open>The working kernel of the masked branch\<close>

text \<open>
  Claim C1: for every unmasked output cell of a masked convolution the working
  kernel sums to 1 and the assertion on that sum never fails. The code counts every
  unmasked position in \<open>remaining_num\<close> but adds the correction only where the
  weight is not 0, so a kernel with a zero weight at an unmasked position loses
  mass: on the grid \<open>[[0, 0, 0]]\<close> with the normalised kernel \<open>[[0, 0.5, 0.5]]\<close>
  and the mask \<open>[[False, False, True]]\<close>, the window of the cell \<open>(0, 1)\<close> has the
  mask \<open>[[False, False, True]]\<close>, the working kernel is \<open>[[0, 0.75, 0]]\<close>, its sum
  is \<open>0.75\<close> and the assertion fails.
\<close>

theorem working_kernel_zero_weight:
  "np_sum (working_kernel [[0, 1 / 2, 1 / 2]] [[False, False, True]]) = 3 / 4
   \<and> redistribute [[0, 1 / 2, 1 / 2]] [[False, False, True]] = Inl AssertionError
   \<and> convolve [[0, 0, 0]] [[0, 1 / 2, 1 / 2]] (Some [[False, False, True]]) False
       = Inl AssertionError"
  by code_simp

section \<open>The smoothing step of create_contour\<close>


section \<open>Masked cells pass through\<close>

lemma fold_err_preserves:
  assumes "\<And>x s s'. f x s = Inr s' \<Longrightarrow> g s' = g s"
    and "fold_err f xs s = Inr s'"
  shows "g s' = g s"
  using assms(2)
proof (induction xs arbitrary: s)
  case Nil
  then show ?case by simp
next
  case (Cons x xs)
  then obtain s1 where s1: "f x s = Inr s1" and rest: "fold_err f xs s1 = Inr s'"
    by (auto split: sum.splits)
  from Cons.IH [OF rest] assms(1) [OF s1] show ?case by simp
qed

lemma nth_nth_list_update:
  "(out[a := (out ! a)[b := v]]) ! io ! jo =
     (if a = io \<and> b = jo \<and> io < length out \<and> jo < length (out ! io) then v else out ! io ! jo)"
proof -
  have upd: "xs[i := x] ! j = (if i = j \<and> i < length xs then x else xs ! j)"
    for xs :: "'b list" and i j x
    by (cases "i < length xs") (simp_all add: nth_list_update list_update_beyond)
  show ?thesis
    by (auto simp: upd)
qed

lemma convolve_cell_keeps_masked:
  assumes "tm ! (rows + io) ! (cols + jo)"
    and "convolve_cell ti (Some tm) weights slow rows cols a b out = Inr out'"
  shows "out' ! io ! jo = out ! io ! jo"
  using assms
  by (auto simp: convolve_cell_def Let_def nth_nth_list_update split: if_splits sum.splits)

lemma convolve_loops_keeps_masked:
  assumes "tm ! (rows + io) ! (cols + jo)"
    and "convolve_loops ti (Some tm) weights slow rows cols out = Inr out'"
  shows "out' ! io ! jo = out ! io ! jo"
proof -
  have inner: "s' ! io ! jo = s ! io ! jo"
    if "fold_err (convolve_cell ti (Some tm) weights slow rows cols a) bs s = Inr s'" for a bs s s'
    using that
    by (rule fold_err_preserves [where g = "\<lambda>s. s ! io ! jo", rotated])
      (rule convolve_cell_keeps_masked [OF assms(1)])
  show ?thesis
    using assms(2) unfolding convolve_loops_def
    by (rule fold_err_preserves [where g = "\<lambda>s. s ! io ! jo", rotated]) (rule inner)
qed

lemma slice2_nth:
  assumes "m = slice2 t r0 (r0 + h) c0 (c0 + w)" and "io < length m" and "jo < length (m ! io)"
  shows "t ! (r0 + io) ! (c0 + jo) = m ! io ! jo"
proof -
  let ?band = "take h (drop r0 t)"
  have len: "length m = length ?band"
    using assms(1) by (simp add: slice2_def)
  then have io: "io < h" "io < length t - r0"
    using assms(2) by simp_all
  have row: "m ! io = take w (drop c0 (t ! (r0 + io)))"
    using assms(1) io by (simp add: slice2_def)
  then have jo: "jo < w" "jo < length (t ! (r0 + io)) - c0"
    using assms(3) by simp_all
  show ?thesis
    using row jo by simp
qed

text \<open>The first assertion of \<open>tile_and_reflect\<close>: the central tile is the input.\<close>

lemma tile_and_reflect_centre:
  assumes "tile_and_reflect m = Inr tm" and "io < length m" and "jo < length (m ! io)"
  shows "tm ! (fst (shape m) + io) ! (snd (shape m) + jo) = m ! io ! jo"
proof -
  have c: "m = slice2 tm (fst (shape m)) (2 * fst (shape m)) (snd (shape m)) (2 * snd (shape m))"
    using assms(1) by (auto simp: tile_and_reflect_def Let_def split: if_splits)
  have "m = slice2 tm (fst (shape m)) (fst (shape m) + fst (shape m))
              (snd (shape m)) (snd (shape m) + snd (shape m))"
    using c by (simp add: mult_2)
  then show ?thesis
    using assms(2,3) by (rule slice2_nth)
qed

text \<open>
  Claim C4: in a masked convolution that returns an output grid, the output equals
  the input at every cell \<open>(io, jo)\<close> where the mask is true: the loop skips the
  cell and the output started as a copy of the input.
\<close>

theorem convolve_masked_cell_unchanged:
  assumes "convolve input weights (Some m) slow = Inr output"
    and "io < length m" and "jo < length (m ! io)" and "m ! io ! jo"
  shows "output ! io ! jo = input ! io ! jo"
proof -
  from assms(1) obtain tm ti where sh: "shape input = shape m"
    and tm: "tile_and_reflect m = Inr tm"
    and loops: "convolve_loops ti (Some tm) weights slow (fst (shape input)) (snd (shape input)) input
                  = Inr output"
    by (auto simp: convolve_def split: if_splits sum.splits)
  have "tm ! (fst (shape input) + io) ! (snd (shape input) + jo)"
    using tile_and_reflect_centre [OF tm assms(2,3)] assms(4) sh by simp
  then show ?thesis
    using loops by (rule convolve_loops_keeps_masked)
qed

theorem convolve_masked_cell_unchanged_witness:
  "convolve [[1, 2, 3], [4, 5, 6], [7, 8, 9]] [[1 / 4, 1 / 2, 1 / 4]]
     (Some [[False, False, False], [False, False, True], [False, False, False]]) False
     = Inr [[5 / 4, 2, 11 / 4], [17 / 4, 37 / 8, 6], [29 / 4, 8, 35 / 4]]
   \<and> [[False, False, False], [False, False, True], [False, False, False]] ! 1 ! 2
   \<and> [[5 / 4, 2, 11 / 4], [17 / 4, 37 / 8, 6], [29 / 4, 8, 35 / 4 :: real]] ! 1 ! 2
       = [[1, 2, 3], [4, 5, 6], [7, 8, 9]] ! 1 ! 2"
proof -
  have h: "convolve [[1, 2, 3], [4, 5, 6], [7, 8, 9]] [[1 / 4, 1 / 2, 1 / 4]]
     (Some [[False, False, False], [False, False, True], [False, False, False]]) False
     = Inr [[5 / 4, 2, 11 / 4], [17 / 4, 37 / 8, 6], [29 / 4, 8, 35 / 4]]"
    by code_simp
  from convolve_masked_cell_unchanged [OF h, of 1 2] h show ?thesis
    by simp
qed

section \<open>The border reflector\<close>
















lemma side_less: "k < 3 * n \<Longrightarrow> side n k < 3 * n"
  by (auto simp: side_def)














section \<open>Windows of the tiled grid\<close>














section \<open>Reference mode and windowed mode\<close>









section \<open>A constant field\<close>






lemma const_grid_cells: "cells (replicate n (replicate m v)) n m (\<lambda>r c. v)"
  by (simp add: cells_def is_grid_def list_all_iff)



















section \<open>A mask without a true cell\<close>







end
